theory Spec2Isabelle
  imports Main "HOL-Library.Word" "HOL-Library.Monad_Syntax"
begin

unbundle bit_operations_syntax

section \<open>C data layout\<close>

text \<open>
  The driver overlays C structures on a byte buffer and tells the buffer's revision from
  its size alone, so the sizes and field offsets of the structures are part of the
  program. The structures are deliberately not packed: the compiler lays them out with
  natural alignment. The only type whose width the file does not fix is
  \<open>phys_addr_t\<close> (4 or 8 bytes, by kernel configuration); its width \<open>pa\<close> is a
  parameter of every layout function.
\<close>

datatype ctype =
    U8 | U16 | U32 | U64
  | PhysAddr
  | Array ctype nat
  | Struct "(string \<times> ctype) list"

fun alignof :: "nat \<Rightarrow> ctype \<Rightarrow> nat"
  and alignof_fields :: "nat \<Rightarrow> (string \<times> ctype) list \<Rightarrow> nat" where
  "alignof pa U8 = 1"
| "alignof pa U16 = 2"
| "alignof pa U32 = 4"
| "alignof pa U64 = 8"
| "alignof pa PhysAddr = pa"
| "alignof pa (Array t n) = alignof pa t"
| "alignof pa (Struct fs) = alignof_fields pa fs"
| "alignof_fields pa [] = 1"
| "alignof_fields pa (f # fs) = max (alignof pa (snd f)) (alignof_fields pa fs)"

definition align_up :: "nat \<Rightarrow> nat \<Rightarrow> nat" where
  "align_up off a = ((off + a - 1) div a) * a"

fun sizeof :: "nat \<Rightarrow> ctype \<Rightarrow> nat"
  and fields_end :: "nat \<Rightarrow> nat \<Rightarrow> (string \<times> ctype) list \<Rightarrow> nat" where
  "sizeof pa U8 = 1"
| "sizeof pa U16 = 2"
| "sizeof pa U32 = 4"
| "sizeof pa U64 = 8"
| "sizeof pa PhysAddr = pa"
| "sizeof pa (Array t n) = n * sizeof pa t"
| "sizeof pa (Struct fs) = align_up (fields_end pa 0 fs) (alignof_fields pa fs)"
| "fields_end pa off [] = off"
| "fields_end pa off (f # fs) =
     fields_end pa (align_up off (alignof pa (snd f)) + sizeof pa (snd f)) fs"

text \<open>
  \<open>offsetof_fields\<close> is the offset of a named member. A name that is not a member
  does not compile in C; here it yields the end offset of the members.
\<close>

fun offsetof_fields :: "nat \<Rightarrow> nat \<Rightarrow> (string \<times> ctype) list \<Rightarrow> string \<Rightarrow> nat" where
  "offsetof_fields pa off [] name = off"
| "offsetof_fields pa off (f # fs) name =
     (if fst f = name then align_up off (alignof pa (snd f))
      else offsetof_fields pa (align_up off (alignof pa (snd f)) + sizeof pa (snd f)) fs name)"

fun offsetof :: "nat \<Rightarrow> ctype \<Rightarrow> string \<Rightarrow> nat" where
  "offsetof pa (Struct fs) name = offsetof_fields pa 0 fs name"
| "offsetof pa t name = 0"

text \<open>
  The type of a named member, and the number of elements an array type declares. An
  index at or above that number is outside the array, whatever lies at its address.
\<close>

fun member_type :: "ctype \<Rightarrow> string \<Rightarrow> ctype" where
  "member_type (Struct fs) name = (case map_of fs name of Some t \<Rightarrow> t | None \<Rightarrow> Struct [])"
| "member_type t name = Struct []"

fun array_len :: "ctype \<Rightarrow> nat" where
  "array_len (Array t n) = n"
| "array_len t = 0"

subsection \<open>The structures of the driver\<close>

definition MAX_DDR_FREQ_NUM_V3 :: nat where "MAX_DDR_FREQ_NUM_V3 = 13"
definition MAX_DDR_FREQ_NUM_V5 :: nat where "MAX_DDR_FREQ_NUM_V5 = 14"
definition MAX_DDR_REGION_NUM :: nat where "MAX_DDR_REGION_NUM = 6"
definition MAX_CHAN_NUM :: nat where "MAX_CHAN_NUM = 8"
definition MAX_RANK_NUM :: nat where "MAX_RANK_NUM = 2"

definition ddr_part_details :: ctype where
  "ddr_part_details = Struct
     [(''revision_id1'', U16), (''revision_id2'', U16), (''width'', U16), (''density'', U16)]"

definition ddr_freq_table :: ctype where
  "ddr_freq_table = Struct [(''freq_khz'', U32), (''enabled'', U8)]"

definition ddr_freq_plan_v3 :: ctype where
  "ddr_freq_plan_v3 = Struct
     [(''ddr_freq'', Array ddr_freq_table MAX_DDR_FREQ_NUM_V3),
      (''num_ddr_freqs'', U8),
      (''clk_period_address'', PhysAddr)]"

definition ddr_details_v3 :: ctype where
  "ddr_details_v3 = Struct
     [(''manufacturer_id'', U8),
      (''device_type'', U8),
      (''ddr_params'', Array ddr_part_details MAX_CHAN_NUM),
      (''ddr_freq_tbl'', ddr_freq_plan_v3),
      (''num_channels'', U8)]"

definition ddr_details_v4 :: ctype where
  "ddr_details_v4 = Struct
     [(''manufacturer_id'', U8),
      (''device_type'', U8),
      (''ddr_params'', Array ddr_part_details MAX_CHAN_NUM),
      (''ddr_freq_tbl'', ddr_freq_plan_v3),
      (''num_channels'', U8),
      (''num_ranks'', Array U8 MAX_CHAN_NUM),
      (''highest_bank_addr_bit'', Array (Array U8 MAX_RANK_NUM) MAX_CHAN_NUM)]"

definition ddr_freq_plan_v5 :: ctype where
  "ddr_freq_plan_v5 = Struct
     [(''ddr_freq'', Array ddr_freq_table MAX_DDR_FREQ_NUM_V5),
      (''num_ddr_freqs'', U8),
      (''clk_period_address'', PhysAddr),
      (''max_nom_ddr_freq'', U32)]"

definition ddr_region_v5 :: ctype where
  "ddr_region_v5 = Struct
     [(''start_address'', U64),
      (''size'', U64),
      (''mem_controller_address'', U64),
      (''granule_size'', U32),
      (''ddr_rank'', U8),
      (''segments_start_index'', U8),
      (''segments_start_offset'', U64)]"

text \<open>The flexible array member \<open>ddr_region[]\<close> has no size of its own but aligns.\<close>

definition ddr_regions_v5 :: ctype where
  "ddr_regions_v5 = Struct
     [(''ddr_region_num'', U32),
      (''ddr_rank0_size'', U64),
      (''ddr_rank1_size'', U64),
      (''ddr_cs0_start_addr'', U64),
      (''ddr_cs1_start_addr'', U64),
      (''highest_bank_addr_bit'', U32),
      (''ddr_region'', Array ddr_region_v5 0)]"

definition ddr_details_v5 :: ctype where
  "ddr_details_v5 = Struct
     [(''manufacturer_id'', U8),
      (''device_type'', U8),
      (''ddr_params'', Array ddr_part_details MAX_CHAN_NUM),
      (''ddr_freq_tbl'', ddr_freq_plan_v5),
      (''num_channels'', U8),
      (''ddr_regions'', ddr_regions_v5)]"

section \<open>Inferring the structure revision from the size\<close>

definition EINVAL :: int where "EINVAL = 22"
definition ENODATA :: int where "ENODATA = 61"
definition ENOMEM :: int where "ENOMEM = 12"

definition INFO_UNKNOWN :: int where "INFO_UNKNOWN = 0"
definition INFO_V3 :: int where "INFO_V3 = 1"
definition INFO_V3_WITH_14_FREQS :: int where "INFO_V3_WITH_14_FREQS = 2"
definition INFO_V4 :: int where "INFO_V4 = 3"
definition INFO_V5 :: int where "INFO_V5 = 4"
definition INFO_V5_WITH_6_REGIONS :: int where "INFO_V5_WITH_6_REGIONS = 5"

definition smem_dram_infer_struct_version :: "nat \<Rightarrow> nat \<Rightarrow> int" where
  "smem_dram_infer_struct_version pa sz =
     (if sz < sizeof pa ddr_details_v3 then - EINVAL
      else if sz = sizeof pa ddr_details_v3 then INFO_V3
      else if sz = sizeof pa ddr_details_v3 + sizeof pa ddr_freq_table
        then INFO_V3_WITH_14_FREQS
      else if sz = sizeof pa ddr_details_v4 then INFO_V4
      else if sz = sizeof pa ddr_details_v5 + 4 * sizeof pa ddr_region_v5 then INFO_V5
      else if sz = sizeof pa ddr_details_v5 + 6 * sizeof pa ddr_region_v5
        then INFO_V5_WITH_6_REGIONS
      else INFO_UNKNOWN)"

section \<open>Reading the buffer\<close>

text \<open>
  The buffer returned by the shared-memory store is a sequence of bytes; its length is the
  \<open>actual_size\<close> the store reports. The driver reads members through structure
  pointers, on a little-endian CPU. A read that is not wholly inside the buffer has no
  defined behaviour in C: it is \<open>None\<close> here, and so is everything computed from it.
\<close>

type_synonym blob = "8 word list"

definition le32 :: "blob \<Rightarrow> nat \<Rightarrow> 32 word" where
  "le32 data off =
     ucast (data ! off) OR push_bit 8 (ucast (data ! (off + 1)))
       OR push_bit 16 (ucast (data ! (off + 2))) OR push_bit 24 (ucast (data ! (off + 3)))"

definition read_u8 :: "blob \<Rightarrow> nat \<Rightarrow> 8 word option" where
  "read_u8 data off = (if off < length data then Some (data ! off) else None)"

definition read_u32 :: "blob \<Rightarrow> nat \<Rightarrow> 32 word option" where
  "read_u32 data off = (if off + 4 \<le> length data then Some (le32 data off) else None)"

section \<open>The parsed result\<close>

text \<open>
  \<open>unsigned long\<close> is 64 bits wide on a 64-bit kernel and 32 bits on a 32-bit one. Every
  value the driver stores in \<open>frequencies\<close> is a 32-bit product, so both widths hold the
  same number; the model uses the wider one.
\<close>

record smem_dram =
  frequencies :: "64 word list"
  num_frequencies :: "32 word"
  hbb :: "8 word"

text \<open>\<open>devm_kzalloc\<close>: the result starts with every byte zero.\<close>

definition kzalloc_smem_dram :: smem_dram where
  "kzalloc_smem_dram =
     \<lparr>frequencies = replicate MAX_DDR_FREQ_NUM_V5 0, num_frequencies = 0, hbb = 0\<rparr>"

text \<open>
  \<open>dram->frequencies[dram->num_frequencies++] = v\<close>. The list \<open>frequencies\<close> is the array,
  of \<open>MAX_DDR_FREQ_NUM_V5\<close> elements once allocated. A store past its end is undefined in C.
\<close>

definition store_frequency :: "smem_dram \<Rightarrow> 64 word \<Rightarrow> smem_dram option" where
  "store_frequency dram v =
     (if unat (num_frequencies dram) < length (frequencies dram)
      then Some (dram\<lparr>frequencies := (frequencies dram)[unat (num_frequencies dram) := v],
                      num_frequencies := num_frequencies dram + 1\<rparr>)
      else None)"

text \<open>
  The body of the three frequency loops, for the table entry at byte offset \<open>p\<close>. The
  product \<open>1000 * freq_entry->freq_khz\<close> is of type \<open>unsigned int\<close> (\<open>int\<close> times \<open>u32\<close>):
  it wraps at 32 bits before it is widened to \<open>unsigned long\<close>. The \<open>&&\<close> reads
  \<open>enabled\<close> only when \<open>freq_khz\<close> is not zero.
\<close>

definition parse_freq_entry :: "nat \<Rightarrow> blob \<Rightarrow> nat \<Rightarrow> smem_dram \<Rightarrow> smem_dram option" where
  "parse_freq_entry pa data p dram =
     do {
       khz \<leftarrow> read_u32 data (p + offsetof pa ddr_freq_table ''freq_khz'');
       if khz = 0 then Some dram
       else do {
         en \<leftarrow> read_u8 data (p + offsetof pa ddr_freq_table ''enabled'');
         if en = 0 then Some dram
         else store_frequency dram (ucast (1000 * khz))
       }
     }"

text \<open>
  \<open>for (int i = a; i < n; i++)\<close> over the entries \<open>ddr_freq[i]\<close> of the table at byte
  offset \<open>tbl\<close>, as a recursion over the indices \<open>[a..<n]\<close>. The member \<open>ddr_freq\<close> is
  an array of \<open>len\<close> elements. The body reads through \<open>&ddr_freq[i]\<close>; with \<open>i\<close> at or
  above \<open>len\<close> that is an access outside the array, undefined in C even where the address
  is still inside the buffer, so the loop has no result from there on.
\<close>

fun parse_freq_entries ::
  "nat \<Rightarrow> blob \<Rightarrow> nat \<Rightarrow> nat \<Rightarrow> nat list \<Rightarrow> smem_dram \<Rightarrow> smem_dram option" where
  "parse_freq_entries pa data tbl len [] dram = Some dram"
| "parse_freq_entries pa data tbl len (i # is) dram =
     (if i < len
      then do {
             dram' \<leftarrow> parse_freq_entry pa data (tbl + i * sizeof pa ddr_freq_table) dram;
             parse_freq_entries pa data tbl len is dram'
           }
      else None)"

section \<open>The three parsers\<close>

text \<open>Byte offset of \<open>details->ddr_freq_tbl.ddr_freq\<close> in a structure with the given plan.\<close>

definition ddr_freq_off :: "nat \<Rightarrow> ctype \<Rightarrow> ctype \<Rightarrow> nat" where
  "ddr_freq_off pa details plan =
     offsetof pa details ''ddr_freq_tbl'' + offsetof pa plan ''ddr_freq''"

text \<open>The number of elements that the member \<open>ddr_freq\<close> of a frequency plan declares.\<close>

definition ddr_freq_len :: "ctype \<Rightarrow> nat" where
  "ddr_freq_len plan = array_len (member_type plan ''ddr_freq'')"

text \<open>
  \<open>details\<close> is a \<open>struct ddr_details_v3 *\<close>, so the table is the \<open>ddr_freq\<close> of
  \<open>struct ddr_freq_plan_v3\<close>, declared with \<open>MAX_DDR_FREQ_NUM_V3\<close> elements. With
  \<open>additional_freq_entry\<close> the loop goes on to \<open>i = MAX_DDR_FREQ_NUM_V3\<close>, one past the
  last element.
\<close>

definition smem_dram_parse_v3_data ::
  "nat \<Rightarrow> smem_dram \<Rightarrow> blob \<Rightarrow> bool \<Rightarrow> smem_dram option" where
  "smem_dram_parse_v3_data pa dram data additional_freq_entry =
     (let num_freq_entries =
            (if additional_freq_entry then MAX_DDR_FREQ_NUM_V3 + 1 else MAX_DDR_FREQ_NUM_V3)
      in parse_freq_entries pa data (ddr_freq_off pa ddr_details_v3 ddr_freq_plan_v3)
           (ddr_freq_len ddr_freq_plan_v3) [0..<num_freq_entries] dram)"

text \<open>\<open>details->highest_bank_addr_bit[0][0]\<close> is the first byte of the two-dimensional array.\<close>

definition smem_dram_parse_v4_data :: "nat \<Rightarrow> smem_dram \<Rightarrow> blob \<Rightarrow> smem_dram option" where
  "smem_dram_parse_v4_data pa dram data =
     do {
       h \<leftarrow> read_u8 data (offsetof pa ddr_details_v4 ''highest_bank_addr_bit''
                             + 0 * sizeof pa (Array U8 MAX_RANK_NUM) + 0 * sizeof pa U8);
       parse_freq_entries pa data (ddr_freq_off pa ddr_details_v4 ddr_freq_plan_v3)
         (ddr_freq_len ddr_freq_plan_v3) [0..<MAX_DDR_FREQ_NUM_V3] (dram\<lparr>hbb := h\<rparr>)
     }"

text \<open>
  \<open>region\<close> points to the member \<open>ddr_regions\<close>, of type \<open>struct ddr_regions_v5\<close>, so
  \<open>region[0]\<close> is that structure itself and \<open>highest_bank_addr_bit\<close> is its \<open>u32\<close> member.
  The assignment to the \<open>u8\<close> member \<open>hbb\<close> keeps the low byte.
\<close>

definition smem_dram_parse_v5_data :: "nat \<Rightarrow> smem_dram \<Rightarrow> blob \<Rightarrow> smem_dram option" where
  "smem_dram_parse_v5_data pa dram data =
     do {
       h \<leftarrow> read_u32 data (offsetof pa ddr_details_v5 ''ddr_regions''
                              + 0 * sizeof pa ddr_regions_v5
                              + offsetof pa ddr_regions_v5 ''highest_bank_addr_bit'');
       parse_freq_entries pa data (ddr_freq_off pa ddr_details_v5 ddr_freq_plan_v5)
         (ddr_freq_len ddr_freq_plan_v5) [0..<MAX_DDR_FREQ_NUM_V5] (dram\<lparr>hbb := ucast h\<rparr>)
     }"

text \<open>
  \<open>smem_dram_frequencies_show\<close> prints \<open>frequencies[0]\<close> to
  \<open>frequencies[num_frequencies - 1]\<close>, one per line: the frequency list of the result.
  The model returns the numbers printed.
\<close>

definition smem_dram_frequencies_show :: "smem_dram \<Rightarrow> 64 word list" where
  "smem_dram_frequencies_show dram =
     map (\<lambda>i. frequencies dram ! i) [0..<unat (num_frequencies dram)]"

section \<open>Parsing and publishing\<close>

text \<open>
  The \<open>switch\<close> of \<open>smem_dram_parse\<close> on the revision: \<open>Inl\<close> is the error of the
  \<open>default\<close> branch, \<open>Inr\<close> the structure after the parser of the revision has run.
\<close>

definition smem_dram_parse_switch ::
  "nat \<Rightarrow> int \<Rightarrow> smem_dram \<Rightarrow> blob \<Rightarrow> (int + smem_dram) option" where
  "smem_dram_parse_switch pa ver dram data =
     (if ver = INFO_V3 then map_option Inr (smem_dram_parse_v3_data pa dram data False)
      else if ver = INFO_V3_WITH_14_FREQS
        then map_option Inr (smem_dram_parse_v3_data pa dram data True)
      else if ver = INFO_V4 then map_option Inr (smem_dram_parse_v4_data pa dram data)
      else if ver = INFO_V5 \<or> ver = INFO_V5_WITH_6_REGIONS
        then map_option Inr (smem_dram_parse_v5_data pa dram data)
      else Some (Inl (- EINVAL)))"

text \<open>
  \<open>smem_dram_parse\<close>, as a function of the global pointer \<open>__dram\<close> (\<open>None\<close> when
  \<open>NULL\<close>) and of what its environment returns: \<open>smem_item\<close> is the buffer of
  \<open>qcom_smem_get\<close> (\<open>None\<close> for an error pointer or \<open>NULL\<close>), \<open>alloc_ok\<close> says
  whether \<open>devm_kzalloc\<close> succeeds, \<open>debugfs_dir\<close> is what \<open>debugfs_create_dir\<close> returns.
  The result is the returned pointer (\<open>Inl e\<close> for \<open>ERR_PTR(e)\<close>) and the new \<open>__dram\<close>.
  The directory is returned as \<open>debugfs_create_dir\<close> gave it, without a test.

  \<open>ver\<close> has the type \<open>enum ddr_info_version\<close>, whose representation the compiler chooses:
  \<open>unsigned int\<close> with GCC and Clang, since no enumerator is negative, and then the
  error of the inference is a large positive number and \<open>ver < 0\<close> never holds.
  \<open>signed_enum\<close> selects the other reading.
\<close>

definition smem_dram_parse ::
  "nat \<Rightarrow> bool \<Rightarrow> blob option \<Rightarrow> bool \<Rightarrow> 'd \<Rightarrow> smem_dram option
     \<Rightarrow> ((int + 'd) \<times> smem_dram option) option" where
  "smem_dram_parse pa signed_enum smem_item alloc_ok debugfs_dir dram_g =
     (case smem_item of
        None \<Rightarrow> Some (Inl (- ENODATA), dram_g)
      | Some data \<Rightarrow>
          let r = smem_dram_infer_struct_version pa (length data);
              ver = (if signed_enum then r else r mod 2 ^ 32)
          in if ver < 0 then Some (Inl (- ENODATA), dram_g)
             else if ver = INFO_UNKNOWN then Some (Inl (- EINVAL), dram_g)
             else if \<not> alloc_ok then Some (Inl (- ENOMEM), dram_g)
             else (case smem_dram_parse_switch pa ver kzalloc_smem_dram data of
                     None \<Rightarrow> None
                   | Some (Inl e) \<Rightarrow> Some (Inl e, dram_g)
                   | Some (Inr dram) \<Rightarrow> Some (Inr debugfs_dir, Some dram)))"

definition qcom_smem_dram_get_hbb :: "smem_dram option \<Rightarrow> int" where
  "qcom_smem_dram_get_hbb dram_g =
     (case dram_g of None \<Rightarrow> - ENODATA | Some dram \<Rightarrow> uint (hbb dram))"

section \<open>Views of the buffer and of a run of the driver\<close>

text \<open>
  The definitions of this section are not code of the driver. They name what the
  properties below talk about: the members of the buffer as C values, the table a revision
  declares, and a sequence of calls of \<open>smem_dram_parse\<close>.
\<close>

text \<open>\<open>struct ddr_freq_table\<close> as a value, and the entry \<open>ddr_freq[i]\<close> of a table at \<open>tbl\<close>.\<close>

record freq_entry =
  freq_khz :: "32 word"
  enabled :: "8 word"

definition ddr_freq :: "nat \<Rightarrow> blob \<Rightarrow> nat \<Rightarrow> nat \<Rightarrow> freq_entry" where
  "ddr_freq pa data tbl i =
     \<lparr>freq_khz = le32 data (tbl + i * sizeof pa ddr_freq_table
                               + offsetof pa ddr_freq_table ''freq_khz''),
      enabled = data ! (tbl + i * sizeof pa ddr_freq_table
                          + offsetof pa ddr_freq_table ''enabled'')\<rparr>"

text \<open>The condition and the stored value of the loop body, on an entry.\<close>

definition freq_entry_valid :: "freq_entry \<Rightarrow> bool" where
  "freq_entry_valid e = (freq_khz e \<noteq> 0 \<and> enabled e \<noteq> 0)"

definition freq_entry_hz :: "freq_entry \<Rightarrow> 64 word" where
  "freq_entry_hz e = ucast (1000 * freq_khz e)"

definition table_hz :: "nat \<Rightarrow> blob \<Rightarrow> nat \<Rightarrow> nat list \<Rightarrow> 64 word list" where
  "table_hz pa data tbl is =
     map freq_entry_hz (filter freq_entry_valid (map (ddr_freq pa data tbl) is))"

text \<open>
  The frequency table of a buffer of revision \<open>ver\<close>, as the structure that the driver
  overlays on that revision declares it: \<open>ddr_freq_plan_v3\<close> with 13 entries in
  \<open>ddr_details_v3\<close> (revisions \<open>INFO_V3\<close> and \<open>INFO_V3_WITH_14_FREQS\<close>) and in
  \<open>ddr_details_v4\<close>, \<open>ddr_freq_plan_v5\<close> with 14 entries in \<open>ddr_details_v5\<close>.
\<close>

definition freq_table :: "nat \<Rightarrow> int \<Rightarrow> blob \<Rightarrow> freq_entry list" where
  "freq_table pa ver data =
     (if ver = INFO_V3 \<or> ver = INFO_V3_WITH_14_FREQS
        then map (ddr_freq pa data (ddr_freq_off pa ddr_details_v3 ddr_freq_plan_v3))
               [0..<MAX_DDR_FREQ_NUM_V3]
      else if ver = INFO_V4
        then map (ddr_freq pa data (ddr_freq_off pa ddr_details_v4 ddr_freq_plan_v3))
               [0..<MAX_DDR_FREQ_NUM_V3]
      else map (ddr_freq pa data (ddr_freq_off pa ddr_details_v5 ddr_freq_plan_v5))
             [0..<MAX_DDR_FREQ_NUM_V5])"

text \<open>Byte offset of \<open>details->highest_bank_addr_bit[chan][rank]\<close> in \<open>ddr_details_v4\<close>.\<close>

definition hbb_v4_at :: "nat \<Rightarrow> nat \<Rightarrow> nat \<Rightarrow> nat" where
  "hbb_v4_at pa chan rank =
     offsetof pa ddr_details_v4 ''highest_bank_addr_bit''
       + chan * sizeof pa (Array U8 MAX_RANK_NUM) + rank * sizeof pa U8"

text \<open>
  In \<open>ddr_details_v5\<close>: byte offset of \<open>details->ddr_regions.highest_bank_addr_bit\<close>, and
  of the record \<open>details->ddr_regions.ddr_region[k]\<close> of the trailing array.
\<close>

definition hbb_v5_off :: "nat \<Rightarrow> nat" where
  "hbb_v5_off pa =
     offsetof pa ddr_details_v5 ''ddr_regions''
       + offsetof pa ddr_regions_v5 ''highest_bank_addr_bit''"

definition ddr_region_at :: "nat \<Rightarrow> nat \<Rightarrow> nat" where
  "ddr_region_at pa k =
     offsetof pa ddr_details_v5 ''ddr_regions'' + offsetof pa ddr_regions_v5 ''ddr_region''
       + k * sizeof pa ddr_region_v5"

text \<open>The bytes of the record \<open>ddr_region[k]\<close>.\<close>

definition ddr_region_bytes :: "nat \<Rightarrow> blob \<Rightarrow> nat \<Rightarrow> blob" where
  "ddr_region_bytes pa data k =
     take (sizeof pa ddr_region_v5) (drop (ddr_region_at pa k) data)"

text \<open>
  A structure whose list is empty and whose array has its fourteen slots, as after
  \<open>devm_kzalloc\<close>; and the relation between a structure and a later one that has the
  values \<open>vs\<close> appended and nothing else changed.
\<close>

definition fresh :: "smem_dram \<Rightarrow> bool" where
  "fresh dram = (num_frequencies dram = 0 \<and> length (frequencies dram) = 14)"

definition appended :: "smem_dram \<Rightarrow> 64 word list \<Rightarrow> smem_dram \<Rightarrow> bool" where
  "appended dram vs dram' =
     (hbb dram' = hbb dram
      \<and> length (frequencies dram') = length (frequencies dram)
      \<and> unat (num_frequencies dram') = unat (num_frequencies dram) + length vs
      \<and> take (unat (num_frequencies dram')) (frequencies dram') =
          take (unat (num_frequencies dram)) (frequencies dram) @ vs)"






subsection \<open>Buffers used as examples\<close>

text \<open>
  A buffer of the size of \<open>ddr_details_v4\<close> on a 64-bit kernel: entry 0 of the table is
  1600000 kHz and enabled; the eight bytes after the thirteenth entry, where a fourteenth
  entry would lie, hold frequency 1 and a set flag.
\<close>

definition blob_v4_slot13 :: blob where
  "blob_v4_slot13 =
     (replicate 224 0)[73 := 0x6A, 74 := 0x18, 76 := 1, 176 := 1, 180 := 1]"

text \<open>A \<open>ddr_details_v3\<close> buffer whose entries 0 and 1 are both 1600000 kHz and enabled.\<close>

definition blob_v3_twice :: blob where
  "blob_v3_twice =
     (replicate 200 0)[73 := 0x6A, 74 := 0x18, 76 := 1, 81 := 0x6A, 82 := 0x18, 84 := 1]"

text \<open>A \<open>ddr_details_v3\<close> buffer whose entry 0 is \<open>0x20000000\<close> kHz and enabled.\<close>

definition blob_v3_wrap :: blob where
  "blob_v3_wrap = (replicate 200 0)[75 := 0x20, 76 := 1]"

text \<open>
  Two buffers with four regions that differ in the byte at offset 256 only, which lies in
  \<open>ddr_regions.highest_bank_addr_bit\<close>, before the trailing array.
\<close>

definition blob_v5_zero :: blob where
  "blob_v5_zero = replicate 424 0"

definition blob_v5_hbb :: blob where
  "blob_v5_hbb = (replicate 424 0)[256 := 7]"


text \<open>A \<open>ddr_details_v4\<close> buffer with \<open>highest_bank_addr_bit[0][0] = 3\<close>.\<close>

definition blob_v4_hbb :: blob where
  "blob_v4_hbb = (replicate 224 0)[201 := 3]"

text \<open>
  A buffer of the size of revision \<open>INFO_V3_WITH_14_FREQS\<close>: entry 0 of the table is
  1600000 kHz and enabled, and the eight bytes after the thirteenth entry hold 1 kHz and
  a set flag.
\<close>

definition blob_v3_extra :: blob where
  "blob_v3_extra = (replicate 208 0)[73 := 0x6A, 74 := 0x18, 76 := 1, 176 := 1, 180 := 1]"

text \<open>A buffer with six regions whose \<open>highest_bank_addr_bit\<close> is \<open>0x107\<close>.\<close>

definition blob_v5_wide :: blob where
  "blob_v5_wide = (replicate 504 0)[256 := 7, 257 := 1]"

section \<open>The frequency loop\<close>

lemma sizeof_ddr_freq_table: "sizeof pa ddr_freq_table = 8"
  by code_simp

lemma offsetof_freq_khz: "offsetof pa ddr_freq_table ''freq_khz'' = 0"
  by code_simp

lemma offsetof_enabled: "offsetof pa ddr_freq_table ''enabled'' = 4"
  by code_simp

lemmas freq_table_layout = sizeof_ddr_freq_table offsetof_freq_khz offsetof_enabled

lemma parse_freq_entry_in_bounds:
  assumes "tbl + i * 8 + 8 \<le> length data"
  shows "parse_freq_entry pa data (tbl + i * sizeof pa ddr_freq_table) dram =
           (if freq_entry_valid (ddr_freq pa data tbl i)
            then store_frequency dram (freq_entry_hz (ddr_freq pa data tbl i))
            else Some dram)"
  using assms
  by (simp add: parse_freq_entry_def freq_table_layout read_u32_def read_u8_def
      freq_entry_valid_def freq_entry_hz_def ddr_freq_def)

lemma show_eq_take:
  assumes "unat (num_frequencies dram) \<le> length (frequencies dram)"
  shows "smem_dram_frequencies_show dram = take (unat (num_frequencies dram)) (frequencies dram)"
  using assms by (simp add: smem_dram_frequencies_show_def list_eq_iff_nth_eq)

lemma store_frequency_result:
  assumes "unat (num_frequencies dram) < length (frequencies dram)"
    and "length (frequencies dram) \<le> 14"
  shows "\<exists>dram'. store_frequency dram v = Some dram'
           \<and> hbb dram' = hbb dram
           \<and> length (frequencies dram') = length (frequencies dram)
           \<and> unat (num_frequencies dram') = Suc (unat (num_frequencies dram))
           \<and> take (unat (num_frequencies dram')) (frequencies dram') =
               take (unat (num_frequencies dram)) (frequencies dram) @ [v]"
proof -
  let ?n = "num_frequencies dram"
  have "unat ?n + 1 < 2 ^ 32" using assms by simp
  then have n1: "unat (?n + 1) = Suc (unat ?n)"
    by (simp add: unat_word_ariths)
  show ?thesis
    using assms(1) by (simp add: store_frequency_def n1 take_Suc_conv_app_nth)
qed

lemma appended_Nil: "appended dram [] dram"
  by (simp add: appended_def)

lemma appended_trans:
  assumes "appended d0 vs d1" and "appended d1 ws d2"
  shows "appended d0 (vs @ ws) d2"
proof -
  from assms have
    "take (unat (num_frequencies d2)) (frequencies d2) =
       (take (unat (num_frequencies d0)) (frequencies d0) @ vs) @ ws"
    unfolding appended_def by (elim conjE) (erule trans, erule arg_cong2 [OF _ refl])
  with assms show ?thesis
    unfolding appended_def by simp
qed

lemma store_frequency_appended:
  assumes "unat (num_frequencies dram) < length (frequencies dram)"
    and "length (frequencies dram) \<le> 14"
  shows "\<exists>dram'. store_frequency dram v = Some dram' \<and> appended dram [v] dram'"
  using store_frequency_result [OF assms, of v] by (auto simp: appended_def)

lemma table_hz_Cons:
  "table_hz pa data tbl (i # is) =
     (if freq_entry_valid (ddr_freq pa data tbl i)
      then [freq_entry_hz (ddr_freq pa data tbl i)] else []) @ table_hz pa data tbl is"
  by (simp add: table_hz_def)

lemma length_table_hz: "length (table_hz pa data tbl is) \<le> length is"
  by (simp add: table_hz_def)

lemma parse_freq_entries_appended:
  assumes "\<forall>i \<in> set is. i < len \<and> tbl + i * 8 + 8 \<le> length data"
    and "unat (num_frequencies dram) + length is \<le> length (frequencies dram)"
    and "length (frequencies dram) \<le> 14"
  shows "\<exists>dram'. parse_freq_entries pa data tbl len is dram = Some dram'
           \<and> appended dram (table_hz pa data tbl is) dram'"
  using assms
proof (induction "is" arbitrary: dram)
  case Nil
  then show ?case by (simp add: table_hz_def appended_Nil)
next
  case (Cons i "is")
  from Cons.prems(1) have inb: "tbl + i * 8 + 8 \<le> length data" and ia: "i < len" by simp_all
  let ?e = "ddr_freq pa data tbl i"
  let ?vs = "if freq_entry_valid ?e then [freq_entry_hz ?e] else []"
  have "\<exists>d1. parse_freq_entry pa data (tbl + i * sizeof pa ddr_freq_table) dram = Some d1
          \<and> appended dram ?vs d1"
  proof (cases "freq_entry_valid ?e")
    case True
    from Cons.prems(2) have "unat (num_frequencies dram) < length (frequencies dram)"
      by simp
    from store_frequency_appended [OF this Cons.prems(3), of "freq_entry_hz ?e"] True
    show ?thesis by (simp add: parse_freq_entry_in_bounds [OF inb])
  next
    case False
    then show ?thesis by (simp add: parse_freq_entry_in_bounds [OF inb] appended_Nil)
  qed
  then obtain d1 where
    step: "parse_freq_entry pa data (tbl + i * sizeof pa ddr_freq_table) dram = Some d1"
    and app1: "appended dram ?vs d1"
    by blast
  have "length ?vs \<le> 1" by simp
  with app1 Cons.prems(2,3) have
    room: "unat (num_frequencies d1) + length is \<le> length (frequencies d1)"
    and len: "length (frequencies d1) \<le> 14"
    by (simp_all add: appended_def)
  from Cons.prems(1) have "\<forall>i \<in> set is. i < len \<and> tbl + i * 8 + 8 \<le> length data" by simp
  from Cons.IH [OF this room len] obtain d2 where
    rest: "parse_freq_entries pa data tbl len is d1 = Some d2"
    and app2: "appended d1 (table_hz pa data tbl is) d2"
    by blast
  from step rest ia have "parse_freq_entries pa data tbl len (i # is) dram = Some d2" by simp
  moreover from appended_trans [OF app1 app2]
  have "appended dram (table_hz pa data tbl (i # is)) d2"
    by (simp only: table_hz_Cons)
  ultimately show ?case by blast
qed

lemma appended_show:
  assumes "appended dram vs dram'" and "num_frequencies dram = 0"
    and "length vs \<le> length (frequencies dram)"
  shows "smem_dram_frequencies_show dram' = vs"
proof -
  from assms have "unat (num_frequencies dram') \<le> length (frequencies dram')"
    by (simp add: appended_def)
  from show_eq_take [OF this]
  have "smem_dram_frequencies_show dram' =
          take (unat (num_frequencies dram')) (frequencies dram')" .
  also from assms(1) have "\<dots> = take (unat (num_frequencies dram)) (frequencies dram) @ vs"
    unfolding appended_def by blast
  also from assms(2) have "\<dots> = vs" by simp
  finally show ?thesis .
qed

section \<open>Sizes and offsets for both widths of the physical address\<close>


lemma sizeof_ddr_region_v5: "sizeof pa ddr_region_v5 = 40"
  by code_simp

lemma ddr_freq_len_plans:
  "ddr_freq_len ddr_freq_plan_v3 = 13"
  "ddr_freq_len ddr_freq_plan_v5 = 14"
  by code_simp+

lemma layout_8:
  "sizeof 8 ddr_details_v3 = 200"
  "sizeof 8 ddr_details_v4 = 224"
  "sizeof 8 ddr_details_v5 = 264"
  "sizeof 8 ddr_regions_v5 = 48"
  "ddr_freq_off 8 ddr_details_v3 ddr_freq_plan_v3 = 72"
  "ddr_freq_off 8 ddr_details_v4 ddr_freq_plan_v3 = 72"
  "ddr_freq_off 8 ddr_details_v5 ddr_freq_plan_v5 = 72"
  "hbb_v4_at 8 0 0 = 201"
  "hbb_v5_off 8 = 256"
  "ddr_region_at 8 0 = 264"
  by code_simp+

lemma layout_4:
  "sizeof 4 ddr_details_v3 = 184"
  "sizeof 4 ddr_details_v4 = 208"
  "sizeof 4 ddr_details_v5 = 248"
  "sizeof 4 ddr_regions_v5 = 48"
  "ddr_freq_off 4 ddr_details_v3 ddr_freq_plan_v3 = 68"
  "ddr_freq_off 4 ddr_details_v4 ddr_freq_plan_v3 = 68"
  "ddr_freq_off 4 ddr_details_v5 ddr_freq_plan_v5 = 68"
  "hbb_v4_at 4 0 0 = 189"
  "hbb_v5_off 4 = 240"
  "ddr_region_at 4 0 = 248"
  by code_simp+

lemmas version_defs = INFO_UNKNOWN_def INFO_V3_def INFO_V3_WITH_14_FREQS_def INFO_V4_def
  INFO_V5_def INFO_V5_WITH_6_REGIONS_def EINVAL_def

lemma infer_8:
  "smem_dram_infer_struct_version 8 sz =
     (if sz < 200 then - EINVAL else if sz = 200 then INFO_V3
      else if sz = 208 then INFO_V3_WITH_14_FREQS else if sz = 224 then INFO_V4
      else if sz = 424 then INFO_V5 else if sz = 504 then INFO_V5_WITH_6_REGIONS
      else INFO_UNKNOWN)"
  by (simp add: smem_dram_infer_struct_version_def layout_8 sizeof_ddr_freq_table
      sizeof_ddr_region_v5)

lemma infer_4:
  "smem_dram_infer_struct_version 4 sz =
     (if sz < 184 then - EINVAL else if sz = 184 then INFO_V3
      else if sz = 192 then INFO_V3_WITH_14_FREQS else if sz = 208 then INFO_V4
      else if sz = 408 then INFO_V5 else if sz = 488 then INFO_V5_WITH_6_REGIONS
      else INFO_UNKNOWN)"
  by (simp add: smem_dram_infer_struct_version_def layout_4 sizeof_ddr_freq_table
      sizeof_ddr_region_v5)

section \<open>The parsers on a zeroed structure\<close>

lemma kzalloc_room:
  "num_frequencies kzalloc_smem_dram = 0"
  "length (frequencies kzalloc_smem_dram) = 14"
  "hbb kzalloc_smem_dram = 0"
  by (simp_all add: kzalloc_smem_dram_def MAX_DDR_FREQ_NUM_V5_def)

lemma parse_freq_entries_fresh:
  assumes "fresh dram" and "n \<le> 14" and "tbl + n * 8 \<le> length data" and "n \<le> len"
  shows "\<exists>dram'. parse_freq_entries pa data tbl len [0..<n] dram = Some dram'
           \<and> hbb dram' = hbb dram
           \<and> smem_dram_frequencies_show dram' = table_hz pa data tbl [0..<n]"
proof -
  have inb: "\<forall>i \<in> set [0..<n]. i < len \<and> tbl + i * 8 + 8 \<le> length data"
  proof
    fix i assume i: "i \<in> set [0..<n]"
    then have "i * 8 + 8 \<le> n * 8" by simp
    with assms(3) have "tbl + i * 8 + 8 \<le> length data" by simp
    moreover from i assms(4) have "i < len" by simp
    ultimately show "i < len \<and> tbl + i * 8 + 8 \<le> length data" by simp
  qed
  from assms(1,2) have
    room: "unat (num_frequencies dram) + length [0..<n] \<le> length (frequencies dram)"
    and len: "length (frequencies dram) \<le> 14"
    by (simp_all add: fresh_def)
  from parse_freq_entries_appended [OF inb room len, of pa] obtain dram' where
    run: "parse_freq_entries pa data tbl len [0..<n] dram = Some dram'"
    and app: "appended dram (table_hz pa data tbl [0..<n]) dram'"
    by blast
  have "length (table_hz pa data tbl [0..<n]) \<le> length (frequencies dram)"
    using length_table_hz [of pa data tbl "[0..<n]"] assms(1,2) by (simp add: fresh_def)
  from appended_show [OF app _ this] assms(1)
  have "smem_dram_frequencies_show dram' = table_hz pa data tbl [0..<n]"
    by (simp add: fresh_def)
  with run app show ?thesis by (auto simp: appended_def)
qed

lemma parse_v3_fresh:
  assumes "pa = 4 \<or> pa = 8" and "fresh dram"
    and "sizeof pa ddr_details_v3 \<le> length data"
  shows "\<exists>dram'. smem_dram_parse_v3_data pa dram data False = Some dram'
           \<and> hbb dram' = hbb dram
           \<and> smem_dram_frequencies_show dram' =
               table_hz pa data (ddr_freq_off pa ddr_details_v3 ddr_freq_plan_v3) [0..<13]"
proof -
  let ?tbl = "ddr_freq_off pa ddr_details_v3 ddr_freq_plan_v3"
  from assms(1,3) have "?tbl + 13 * 8 \<le> length data"
    by (auto simp: layout_8 layout_4)
  from parse_freq_entries_fresh [OF assms(2) _ this, of "ddr_freq_len ddr_freq_plan_v3" pa]
  show ?thesis
    by (simp add: smem_dram_parse_v3_data_def MAX_DDR_FREQ_NUM_V3_def ddr_freq_len_plans)
qed


lemma fresh_hbb_update: "fresh dram \<Longrightarrow> fresh (dram\<lparr>hbb := h\<rparr>)"
  by (simp add: fresh_def)

lemma parse_v4_fresh:
  assumes "pa = 4 \<or> pa = 8" and "fresh dram"
    and "sizeof pa ddr_details_v4 \<le> length data"
  shows "\<exists>dram'. smem_dram_parse_v4_data pa dram data = Some dram'
           \<and> hbb dram' = data ! hbb_v4_at pa 0 0
           \<and> smem_dram_frequencies_show dram' =
               table_hz pa data (ddr_freq_off pa ddr_details_v4 ddr_freq_plan_v3) [0..<13]"
proof -
  let ?tbl = "ddr_freq_off pa ddr_details_v4 ddr_freq_plan_v3"
  from assms(1,3) have tbl: "?tbl + 13 * 8 \<le> length data"
    and h: "hbb_v4_at pa 0 0 < length data"
    by (auto simp: layout_8 layout_4)
  from parse_freq_entries_fresh [OF fresh_hbb_update [OF assms(2)] _ tbl,
      of "ddr_freq_len ddr_freq_plan_v3" pa]
  show ?thesis using h
    by (simp add: smem_dram_parse_v4_data_def MAX_DDR_FREQ_NUM_V3_def read_u8_def
        hbb_v4_at_def ddr_freq_len_plans)
qed

lemma parse_v5_fresh:
  assumes "pa = 4 \<or> pa = 8" and "fresh dram"
    and "sizeof pa ddr_details_v5 \<le> length data"
  shows "\<exists>dram'. smem_dram_parse_v5_data pa dram data = Some dram'
           \<and> hbb dram' = ucast (le32 data (hbb_v5_off pa))
           \<and> smem_dram_frequencies_show dram' =
               table_hz pa data (ddr_freq_off pa ddr_details_v5 ddr_freq_plan_v5) [0..<14]"
proof -
  let ?tbl = "ddr_freq_off pa ddr_details_v5 ddr_freq_plan_v5"
  from assms(1,3) have tbl: "?tbl + 14 * 8 \<le> length data"
    and h: "hbb_v5_off pa + 4 \<le> length data"
    by (auto simp: layout_8 layout_4)
  from parse_freq_entries_fresh [OF fresh_hbb_update [OF assms(2)] _ tbl,
      of "ddr_freq_len ddr_freq_plan_v5" pa]
  show ?thesis using h
    by (simp add: smem_dram_parse_v5_data_def MAX_DDR_FREQ_NUM_V5_def read_u32_def
        hbb_v5_off_def ddr_freq_len_plans)
qed



section \<open>Decoding a buffer of a known revision\<close>

lemma infer_range:
  assumes "pa = 4 \<or> pa = 8"
  shows "smem_dram_infer_struct_version pa n \<in>
           {- EINVAL, INFO_UNKNOWN, INFO_V3, INFO_V3_WITH_14_FREQS, INFO_V4, INFO_V5,
            INFO_V5_WITH_6_REGIONS}"
  using assms by (auto simp: infer_8 infer_4)

lemma infer_iff:
  assumes "pa = 4 \<or> pa = 8"
  shows "smem_dram_infer_struct_version pa n = INFO_V3 \<longleftrightarrow> n = sizeof pa ddr_details_v3"
    and "smem_dram_infer_struct_version pa n = INFO_V3_WITH_14_FREQS
           \<longleftrightarrow> n = sizeof pa ddr_details_v3 + sizeof pa ddr_freq_table"
    and "smem_dram_infer_struct_version pa n = INFO_V4 \<longleftrightarrow> n = sizeof pa ddr_details_v4"
    and "smem_dram_infer_struct_version pa n = INFO_V5
           \<longleftrightarrow> n = sizeof pa ddr_details_v5 + 4 * sizeof pa ddr_region_v5"
    and "smem_dram_infer_struct_version pa n = INFO_V5_WITH_6_REGIONS
           \<longleftrightarrow> n = sizeof pa ddr_details_v5 + 6 * sizeof pa ddr_region_v5"
  using assms
  by (auto simp: infer_8 infer_4 layout_8 layout_4 sizeof_ddr_freq_table sizeof_ddr_region_v5
      version_defs split: if_splits)

lemma table_hz_freq_table:
  "map freq_entry_hz (filter freq_entry_valid (freq_table pa ver data)) =
     (if ver = INFO_V3 \<or> ver = INFO_V3_WITH_14_FREQS
        then table_hz pa data (ddr_freq_off pa ddr_details_v3 ddr_freq_plan_v3) [0..<13]
      else if ver = INFO_V4
        then table_hz pa data (ddr_freq_off pa ddr_details_v4 ddr_freq_plan_v3) [0..<13]
      else table_hz pa data (ddr_freq_off pa ddr_details_v5 ddr_freq_plan_v5) [0..<14])"
  by (simp add: freq_table_def table_hz_def MAX_DDR_FREQ_NUM_V3_def MAX_DDR_FREQ_NUM_V5_def)

lemma fresh_kzalloc: "fresh kzalloc_smem_dram"
  by (simp add: fresh_def kzalloc_room)

lemma decode_classified:
  assumes pa: "pa = 4 \<or> pa = 8"
    and ver: "smem_dram_infer_struct_version pa (length data) = ver"
    and known: "INFO_UNKNOWN < ver"
    and inside: "ver \<noteq> INFO_V3_WITH_14_FREQS"
  shows "\<exists>dram. smem_dram_parse_switch pa ver kzalloc_smem_dram data = Some (Inr dram)
           \<and> smem_dram_frequencies_show dram =
               map freq_entry_hz (filter freq_entry_valid (freq_table pa ver data))
           \<and> hbb dram =
               (if ver = INFO_V3 then 0
                else if ver = INFO_V4 then data ! hbb_v4_at pa 0 0
                else ucast (le32 data (hbb_v5_off pa)))"
proof -
  from infer_range [OF pa, of "length data"] ver known inside
  consider "ver = INFO_V3" | "ver = INFO_V4"
    | "ver = INFO_V5" | "ver = INFO_V5_WITH_6_REGIONS"
    by (auto simp: version_defs)
  then show ?thesis
  proof cases
    case 1
    with ver infer_iff(1) [OF pa, of "length data"]
    have "sizeof pa ddr_details_v3 \<le> length data"
      by simp
    from parse_v3_fresh [OF pa fresh_kzalloc this] 1 show ?thesis
      by (auto simp: smem_dram_parse_switch_def table_hz_freq_table kzalloc_room)
  next
    case 2
    with ver infer_iff(3) [OF pa, of "length data"]
    have "sizeof pa ddr_details_v4 \<le> length data" by simp
    from parse_v4_fresh [OF pa fresh_kzalloc this] 2 show ?thesis
      by (auto simp: smem_dram_parse_switch_def table_hz_freq_table version_defs)
  next
    case 3
    with ver infer_iff(4) [OF pa, of "length data"]
    have "sizeof pa ddr_details_v5 \<le> length data" by simp
    from parse_v5_fresh [OF pa fresh_kzalloc this] 3 show ?thesis
      by (auto simp: smem_dram_parse_switch_def table_hz_freq_table version_defs)
  next
    case 4
    with ver infer_iff(5) [OF pa, of "length data"]
    have "sizeof pa ddr_details_v5 \<le> length data" by simp
    from parse_v5_fresh [OF pa fresh_kzalloc this] 4 show ?thesis
      by (auto simp: smem_dram_parse_switch_def table_hz_freq_table version_defs)
  qed
qed

section \<open>What the parsers read and what they leave alone\<close>

lemma le32_list_update:
  "k < off \<or> off + 4 \<le> k \<Longrightarrow> le32 (data[k := v]) off = le32 data off"
  by (auto simp: le32_def)

lemma ddr_freq_list_update:
  "k < tbl + i * 8 \<or> tbl + i * 8 + 8 \<le> k \<Longrightarrow>
     ddr_freq pa (data[k := v]) tbl i = ddr_freq pa data tbl i"
  by (auto simp: ddr_freq_def freq_table_layout le32_list_update)

lemma table_list_update:
  assumes "k < tbl \<or> tbl + n * 8 \<le> k"
  shows "map (ddr_freq pa (data[k := v]) tbl) [0..<n] = map (ddr_freq pa data tbl) [0..<n]"
proof (rule map_cong [OF refl])
  fix i assume "i \<in> set [0..<n]"
  then have "i * 8 + 8 \<le> n * 8" by simp
  with assms have "k < tbl + i * 8 \<or> tbl + i * 8 + 8 \<le> k" by linarith
  then show "ddr_freq pa (data[k := v]) tbl i = ddr_freq pa data tbl i"
    by (rule ddr_freq_list_update)
qed

lemma ucast_le32_low_byte: "(ucast (le32 data off) :: 8 word) = data ! off"
  by (rule bit_word_eqI) (auto simp: le32_def bit_simps)

lemma unat_hbb_mod: "unat (ucast (w :: 32 word) :: 8 word) = unat w mod 256"
  by (simp add: unsigned_ucast_eq take_bit_eq_mod)

text \<open>Without wrap-around the stored value is the frequency in Hz, and it is not zero.\<close>

lemma unat_ucast_32_64: "unat (ucast (w :: 32 word) :: 64 word) = unat w"
proof -
  have "unat w < 2 ^ 32" using unsigned_less [of w] by simp
  then have "unat w < 2 ^ 64" by simp
  then show ?thesis by (simp add: unsigned_ucast_eq take_bit_nat_eq_self)
qed

lemma unat_times_1000:
  assumes "unat (k :: 32 word) * 1000 < 2 ^ 32"
  shows "unat (1000 * k) = unat k * 1000"
proof -
  have "unat (1000 * k) = (1000 * unat k) mod 2 ^ 32"
    by (simp add: unat_word_ariths)
  also from assms have "\<dots> = unat k * 1000"
    by (simp add: mult.commute)
  finally show ?thesis .
qed

lemma freq_entry_hz_no_wrap:
  assumes "freq_entry_valid e" and "unat (freq_khz e) * 1000 < 2 ^ 32"
  shows "unat (freq_entry_hz e) = unat (freq_khz e) * 1000 \<and> 0 < unat (freq_entry_hz e)"
proof -
  have eq: "unat (freq_entry_hz e) = unat (freq_khz e) * 1000"
    by (simp only: freq_entry_hz_def unat_ucast_32_64 unat_times_1000 [OF assms(2)])
  from assms(1) have "unat (freq_khz e) \<noteq> 0"
    by (simp add: freq_entry_valid_def unat_eq_0)
  with eq show ?thesis by simp
qed

lemma store_frequency_hbb: "store_frequency dram v = Some dram' \<Longrightarrow> hbb dram' = hbb dram"
  by (auto simp: store_frequency_def split: if_splits)

lemma parse_freq_entry_hbb:
  "parse_freq_entry pa data p dram = Some dram' \<Longrightarrow> hbb dram' = hbb dram"
  by (auto simp: parse_freq_entry_def split: if_splits bind_splits dest: store_frequency_hbb)

lemma parse_freq_entries_hbb:
  "parse_freq_entries pa data tbl len is dram = Some dram' \<Longrightarrow> hbb dram' = hbb dram"
proof (induction "is" arbitrary: dram)
  case Nil
  then show ?case by simp
next
  case (Cons i "is")
  then obtain d1 where
    "parse_freq_entry pa data (tbl + i * sizeof pa ddr_freq_table) dram = Some d1"
    and "parse_freq_entries pa data tbl len is d1 = Some dram'"
    by (auto split: bind_splits if_splits)
  with Cons.IH [of d1] parse_freq_entry_hbb [of pa data _ dram d1] show ?case by simp
qed

lemma count_list_map_filter:
  "count_list (map f (filter P xs)) v = length (filter (\<lambda>x. P x \<and> f x = v) xs)"
  by (induction xs) auto



lemma decode_v3:
  assumes "pa = 4 \<or> pa = 8"
    and "smem_dram_infer_struct_version pa (length data) = INFO_V3"
  shows "\<exists>dram. smem_dram_parse_switch pa INFO_V3 kzalloc_smem_dram data = Some (Inr dram)
     \<and> smem_dram_frequencies_show dram =
         table_hz pa data (ddr_freq_off pa ddr_details_v3 ddr_freq_plan_v3) [0..<13]
     \<and> hbb dram = 0"
  using decode_classified [OF assms] by (simp add: table_hz_freq_table version_defs)


lemma decode_v4:
  assumes "pa = 4 \<or> pa = 8"
    and "smem_dram_infer_struct_version pa (length data) = INFO_V4"
  shows "\<exists>dram. smem_dram_parse_switch pa INFO_V4 kzalloc_smem_dram data = Some (Inr dram)
     \<and> smem_dram_frequencies_show dram =
         table_hz pa data (ddr_freq_off pa ddr_details_v4 ddr_freq_plan_v3) [0..<13]
     \<and> hbb dram = data ! hbb_v4_at pa 0 0"
  using decode_classified [OF assms] by (simp add: table_hz_freq_table version_defs)

lemma decode_v5:
  assumes "pa = 4 \<or> pa = 8"
    and "ver = INFO_V5 \<or> ver = INFO_V5_WITH_6_REGIONS"
    and "smem_dram_infer_struct_version pa (length data) = ver"
  shows "\<exists>dram. smem_dram_parse_switch pa ver kzalloc_smem_dram data = Some (Inr dram)
     \<and> smem_dram_frequencies_show dram =
         table_hz pa data (ddr_freq_off pa ddr_details_v5 ddr_freq_plan_v5) [0..<14]
     \<and> hbb dram = ucast (le32 data (hbb_v5_off pa))"
proof -
  from assms(2) have "INFO_UNKNOWN < ver" and "ver \<noteq> INFO_V3_WITH_14_FREQS"
    by (auto simp: version_defs)
  from decode_classified [OF assms(1,3) this] assms(2) show ?thesis
    by (auto simp: table_hz_freq_table version_defs)
qed

section \<open>Publishing the result\<close>





section \<open>The properties\<close>

text \<open>
  C5. The inference of the revision is a complete case analysis on exact sizes: every
  size below that of \<open>ddr_details_v3\<close> gives \<open>-EINVAL\<close> (too small); each of the five
  exact sizes gives its own revision, and the five sizes are pairwise distinct, so no
  earlier comparison of the chain shadows a later one; every other size gives
  \<open>INFO_UNKNOWN\<close> (unrecognised). The seven results are pairwise distinct numbers.
  This holds for both widths of \<open>phys_addr_t\<close>.
\<close>

theorem infer_struct_version_exact:
  assumes "pa = 4 \<or> pa = 8"
  shows "(\<forall>sz < sizeof pa ddr_details_v3. smem_dram_infer_struct_version pa sz = - EINVAL)
    \<and> smem_dram_infer_struct_version pa (sizeof pa ddr_details_v3) = INFO_V3
    \<and> smem_dram_infer_struct_version pa (sizeof pa ddr_details_v3 + sizeof pa ddr_freq_table)
        = INFO_V3_WITH_14_FREQS
    \<and> smem_dram_infer_struct_version pa (sizeof pa ddr_details_v4) = INFO_V4
    \<and> smem_dram_infer_struct_version pa (sizeof pa ddr_details_v5 + 4 * sizeof pa ddr_region_v5)
        = INFO_V5
    \<and> smem_dram_infer_struct_version pa (sizeof pa ddr_details_v5 + 6 * sizeof pa ddr_region_v5)
        = INFO_V5_WITH_6_REGIONS
    \<and> distinct [sizeof pa ddr_details_v3,
                 sizeof pa ddr_details_v3 + sizeof pa ddr_freq_table,
                 sizeof pa ddr_details_v4,
                 sizeof pa ddr_details_v5 + 4 * sizeof pa ddr_region_v5,
                 sizeof pa ddr_details_v5 + 6 * sizeof pa ddr_region_v5]
    \<and> (\<forall>sz \<ge> sizeof pa ddr_details_v3.
          sz \<notin> {sizeof pa ddr_details_v3,
                  sizeof pa ddr_details_v3 + sizeof pa ddr_freq_table,
                  sizeof pa ddr_details_v4,
                  sizeof pa ddr_details_v5 + 4 * sizeof pa ddr_region_v5,
                  sizeof pa ddr_details_v5 + 6 * sizeof pa ddr_region_v5}
          \<longrightarrow> smem_dram_infer_struct_version pa sz = INFO_UNKNOWN)
    \<and> distinct [- EINVAL, INFO_UNKNOWN, INFO_V3, INFO_V3_WITH_14_FREQS, INFO_V4, INFO_V5,
                 INFO_V5_WITH_6_REGIONS]"
  using assms
  by (auto simp: infer_8 infer_4 layout_8 layout_4 sizeof_ddr_freq_table sizeof_ddr_region_v5
      version_defs)

theorem infer_struct_version_exact_witness:
  "((8::nat) = 4 \<or> (8::nat) = 8)
   \<and> smem_dram_infer_struct_version 8 199 = - EINVAL
   \<and> smem_dram_infer_struct_version 8 200 = INFO_V3
   \<and> smem_dram_infer_struct_version 8 208 = INFO_V3_WITH_14_FREQS
   \<and> smem_dram_infer_struct_version 8 224 = INFO_V4
   \<and> smem_dram_infer_struct_version 8 424 = INFO_V5
   \<and> smem_dram_infer_struct_version 8 504 = INFO_V5_WITH_6_REGIONS
   \<and> smem_dram_infer_struct_version 8 464 = INFO_UNKNOWN"
proof -
  have pa: "(8::nat) = 4 \<or> (8::nat) = 8" by simp
  note ex = infer_struct_version_exact [OF pa]
  from ex have "\<forall>sz < sizeof 8 ddr_details_v3. smem_dram_infer_struct_version 8 sz = - EINVAL"
    by blast
  then have small: "smem_dram_infer_struct_version 8 199 = - EINVAL"
    by (simp add: layout_8)
  from ex have "\<forall>sz \<ge> sizeof 8 ddr_details_v3.
          sz \<notin> {sizeof 8 ddr_details_v3,
                  sizeof 8 ddr_details_v3 + sizeof 8 ddr_freq_table,
                  sizeof 8 ddr_details_v4,
                  sizeof 8 ddr_details_v5 + 4 * sizeof 8 ddr_region_v5,
                  sizeof 8 ddr_details_v5 + 6 * sizeof 8 ddr_region_v5}
          \<longrightarrow> smem_dram_infer_struct_version 8 sz = INFO_UNKNOWN"
    by blast
  then have other: "smem_dram_infer_struct_version 8 464 = INFO_UNKNOWN"
    by (simp add: layout_8 sizeof_ddr_freq_table sizeof_ddr_region_v5)
  from ex small other show ?thesis
    by (simp add: layout_8 sizeof_ddr_freq_table sizeof_ddr_region_v5)
qed

text \<open>
  C1 (as amended). For every buffer of revision \<open>INFO_V4\<close>, decoding walks the thirteen
  entries 0 to 12 of the frequency table, which is all that \<open>ddr_details_v4\<close> declares:
  the list of the result holds the entries among them that are non-zero and enabled, so
  such an entry at index 12 is in the list. The eight bytes after the table, where a
  fourteenth entry would lie, are not consulted: changing any of them changes neither the
  list nor the highest bank address bit.
\<close>

theorem v4_walks_thirteen_entries:
  assumes "pa = 4 \<or> pa = 8"
    and "smem_dram_infer_struct_version pa (length data) = INFO_V4"
  shows "\<exists>dram. smem_dram_parse_switch pa INFO_V4 kzalloc_smem_dram data = Some (Inr dram)
     \<and> smem_dram_frequencies_show dram =
         map freq_entry_hz (filter freq_entry_valid
           (map (ddr_freq pa data (ddr_freq_off pa ddr_details_v4 ddr_freq_plan_v3)) [0..<13]))
     \<and> (freq_entry_valid (ddr_freq pa data (ddr_freq_off pa ddr_details_v4 ddr_freq_plan_v3) 12)
          \<longrightarrow> freq_entry_hz (ddr_freq pa data (ddr_freq_off pa ddr_details_v4 ddr_freq_plan_v3) 12)
                \<in> set (smem_dram_frequencies_show dram))
     \<and> (\<forall>k v. ddr_freq_off pa ddr_details_v4 ddr_freq_plan_v3 + 13 * 8 \<le> k
               \<and> k < ddr_freq_off pa ddr_details_v4 ddr_freq_plan_v3 + 14 * 8
          \<longrightarrow> (\<exists>dram'. smem_dram_parse_switch pa INFO_V4 kzalloc_smem_dram (data[k := v])
                          = Some (Inr dram')
                 \<and> smem_dram_frequencies_show dram' = smem_dram_frequencies_show dram
                 \<and> hbb dram' = hbb dram))"
proof -
  let ?tbl = "ddr_freq_off pa ddr_details_v4 ddr_freq_plan_v3"
  from decode_v4 [OF assms] obtain dram where
    run: "smem_dram_parse_switch pa INFO_V4 kzalloc_smem_dram data = Some (Inr dram)"
    and lst: "smem_dram_frequencies_show dram =
                map freq_entry_hz (filter freq_entry_valid (map (ddr_freq pa data ?tbl) [0..<13]))"
    and h: "hbb dram = data ! hbb_v4_at pa 0 0"
    by (auto simp: table_hz_def)
  have twelve: "freq_entry_hz (ddr_freq pa data ?tbl 12) \<in> set (smem_dram_frequencies_show dram)"
    if "freq_entry_valid (ddr_freq pa data ?tbl 12)"
  proof -
    have "ddr_freq pa data ?tbl 12 \<in> set (map (ddr_freq pa data ?tbl) [0..<13])" by simp
    with that show ?thesis unfolding lst by simp
  qed
  have frame: "\<exists>dram'. smem_dram_parse_switch pa INFO_V4 kzalloc_smem_dram (data[k := v])
                          = Some (Inr dram')
                 \<and> smem_dram_frequencies_show dram' = smem_dram_frequencies_show dram
                 \<and> hbb dram' = hbb dram"
    if k: "?tbl + 13 * 8 \<le> k \<and> k < ?tbl + 14 * 8" for k v
  proof -
    have ver': "smem_dram_infer_struct_version pa (length (data[k := v])) = INFO_V4"
      using assms(2) by simp
    from k have "k < ?tbl \<or> ?tbl + 13 * 8 \<le> k" by simp
    from table_list_update [OF this]
    have same: "map (ddr_freq pa (data[k := v]) ?tbl) [0..<13] = map (ddr_freq pa data ?tbl) [0..<13]" .
    from k assms(1) have "k \<noteq> hbb_v4_at pa 0 0"
      by (auto simp: layout_8 layout_4)
    then have sameh: "data[k := v] ! hbb_v4_at pa 0 0 = data ! hbb_v4_at pa 0 0" by simp
    from decode_v4 [OF assms(1) ver'] obtain dram' where
      run': "smem_dram_parse_switch pa INFO_V4 kzalloc_smem_dram (data[k := v])
               = Some (Inr dram')"
      and lst': "smem_dram_frequencies_show dram' =
             map freq_entry_hz (filter freq_entry_valid
               (map (ddr_freq pa (data[k := v]) ?tbl) [0..<13]))"
      and h': "hbb dram' = data[k := v] ! hbb_v4_at pa 0 0"
      by (auto simp: table_hz_def)
    have "smem_dram_frequencies_show dram' = smem_dram_frequencies_show dram"
      by (simp only: lst' same lst)
    moreover have "hbb dram' = hbb dram"
      by (simp only: h' sameh h)
    ultimately show ?thesis using run' by blast
  qed
  from run lst twelve frame show ?thesis by blast
qed

theorem v4_walks_thirteen_entries_witness:
  "((8::nat) = 4 \<or> (8::nat) = 8)
   \<and> smem_dram_infer_struct_version 8 (length blob_v4_slot13) = INFO_V4
   \<and> (\<exists>dram. smem_dram_parse_switch 8 INFO_V4 kzalloc_smem_dram blob_v4_slot13 = Some (Inr dram)
         \<and> smem_dram_frequencies_show dram = [1600000000])"
proof -
  have pa: "(8::nat) = 4 \<or> (8::nat) = 8" by simp
  have ver: "smem_dram_infer_struct_version 8 (length blob_v4_slot13) = INFO_V4"
    by (simp add: infer_8 blob_v4_slot13_def)
  have tab: "map freq_entry_hz (filter freq_entry_valid
               (map (ddr_freq 8 blob_v4_slot13 (ddr_freq_off 8 ddr_details_v4 ddr_freq_plan_v3))
                  [0..<13])) = [1600000000]"
    by code_simp
  from v4_walks_thirteen_entries [OF pa ver] obtain dram where
    "smem_dram_parse_switch 8 INFO_V4 kzalloc_smem_dram blob_v4_slot13 = Some (Inr dram)"
    and "smem_dram_frequencies_show dram =
         map freq_entry_hz (filter freq_entry_valid
           (map (ddr_freq 8 blob_v4_slot13 (ddr_freq_off 8 ddr_details_v4 ddr_freq_plan_v3))
              [0..<13]))"
    by blast
  with tab pa ver show ?thesis by simp
qed

theorem v4_fourteenth_slot_counterexample:
  "smem_dram_infer_struct_version 8 (length blob_v4_slot13) = INFO_V4
   \<and> ddr_freq 8 blob_v4_slot13 (ddr_freq_off 8 ddr_details_v4 ddr_freq_plan_v3) 13
       = \<lparr>freq_khz = 1, enabled = 1\<rparr>
   \<and> smem_dram_parse_switch 8 INFO_V4 kzalloc_smem_dram blob_v4_slot13
       = Some (Inr \<lparr>frequencies = 1600000000 # replicate 13 0, num_frequencies = 1, hbb = 0\<rparr>)
   \<and> smem_dram_frequencies_show
        \<lparr>frequencies = 1600000000 # replicate 13 0, num_frequencies = 1, hbb = 0\<rparr>
       = [1600000000]"
  by code_simp

text \<open>
  C3. The claim that every stored frequency is greater than zero, also when the
  multiplication by 1000 wraps, fails on the code: the product is computed in 32 bits, so
  an enabled entry of \<open>0x20000000\<close> kHz passes the test for a non-zero frequency and is
  stored as \<open>1000 * 2^29 mod 2^32 = 0\<close>. The theorem evaluates the driver on such a buffer.
\<close>

theorem wrapped_frequency_stored_as_zero:
  "smem_dram_infer_struct_version 8 (length blob_v3_wrap) = INFO_V3
   \<and> ddr_freq 8 blob_v3_wrap (ddr_freq_off 8 ddr_details_v3 ddr_freq_plan_v3) 0
       = \<lparr>freq_khz = 0x20000000, enabled = 1\<rparr>
   \<and> smem_dram_parse_switch 8 INFO_V3 kzalloc_smem_dram blob_v3_wrap
       = Some (Inr \<lparr>frequencies = replicate 14 0, num_frequencies = 1, hbb = 0\<rparr>)
   \<and> smem_dram_frequencies_show \<lparr>frequencies = replicate 14 0, num_frequencies = 1, hbb = 0\<rparr>
       = [0]"
  by code_simp

text \<open>
  C4 (as amended). For every buffer of revision \<open>INFO_V5\<close> or \<open>INFO_V5_WITH_6_REGIONS\<close>,
  the highest bank address bit of the result is read from the member
  \<open>highest_bank_addr_bit\<close> of the fixed-size structure \<open>ddr_regions\<close> (\<open>region[0]\<close>
  indexes a pointer to that structure, so it is the structure itself). The member lies
  wholly before the trailing array of region records, no byte of that array has any
  influence on the value, and its offset is the same for four and for six regions.
\<close>

theorem v5_hbb_read_from_regions_header:
  assumes "pa = 4 \<or> pa = 8"
    and "ver = INFO_V5 \<or> ver = INFO_V5_WITH_6_REGIONS"
    and "smem_dram_infer_struct_version pa (length data) = ver"
  shows "\<exists>dram. smem_dram_parse_switch pa ver kzalloc_smem_dram data = Some (Inr dram)
     \<and> hbb dram = ucast (le32 data (hbb_v5_off pa))
     \<and> hbb_v5_off pa + 4 \<le> ddr_region_at pa 0
     \<and> (\<forall>k v. ddr_region_at pa 0 \<le> k
          \<longrightarrow> (\<exists>dram'. smem_dram_parse_switch pa ver kzalloc_smem_dram (data[k := v])
                          = Some (Inr dram')
                 \<and> hbb dram' = hbb dram))"
proof -
  from decode_v5 [OF assms] obtain dram where
    run: "smem_dram_parse_switch pa ver kzalloc_smem_dram data = Some (Inr dram)"
    and h: "hbb dram = ucast (le32 data (hbb_v5_off pa))"
    by blast
  from assms(1) have before: "hbb_v5_off pa + 4 \<le> ddr_region_at pa 0"
    by (auto simp: layout_8 layout_4)
  have frame: "\<exists>dram'. smem_dram_parse_switch pa ver kzalloc_smem_dram (data[k := v])
                          = Some (Inr dram')
                 \<and> hbb dram' = hbb dram"
    if k: "ddr_region_at pa 0 \<le> k" for k v
  proof -
    have ver': "smem_dram_infer_struct_version pa (length (data[k := v])) = ver"
      using assms(3) by simp
    from k before have "k < hbb_v5_off pa \<or> hbb_v5_off pa + 4 \<le> k" by simp
    from le32_list_update [OF this]
    have same: "le32 (data[k := v]) (hbb_v5_off pa) = le32 data (hbb_v5_off pa)" .
    from decode_v5 [OF assms(1,2) ver'] obtain dram' where
      run': "smem_dram_parse_switch pa ver kzalloc_smem_dram (data[k := v]) = Some (Inr dram')"
      and h': "hbb dram' = ucast (le32 (data[k := v]) (hbb_v5_off pa))"
      by blast
    have "hbb dram' = hbb dram" by (simp only: h' same h)
    with run' show ?thesis by blast
  qed
  from run h before frame show ?thesis by blast
qed

theorem v5_hbb_read_from_regions_header_witness:
  "((8::nat) = 4 \<or> (8::nat) = 8)
   \<and> (INFO_V5 = INFO_V5 \<or> INFO_V5 = INFO_V5_WITH_6_REGIONS)
   \<and> smem_dram_infer_struct_version 8 (length blob_v5_hbb) = INFO_V5
   \<and> (\<exists>dram. smem_dram_parse_switch 8 INFO_V5 kzalloc_smem_dram blob_v5_hbb = Some (Inr dram)
         \<and> hbb dram = 7)"
proof -
  have pa: "(8::nat) = 4 \<or> (8::nat) = 8" by simp
  have v: "INFO_V5 = INFO_V5 \<or> INFO_V5 = INFO_V5_WITH_6_REGIONS" by simp
  have ver: "smem_dram_infer_struct_version 8 (length blob_v5_hbb) = INFO_V5"
    by (simp add: infer_8 blob_v5_hbb_def)
  have val: "(ucast (le32 blob_v5_hbb (hbb_v5_off 8)) :: 8 word) = 7"
    by code_simp
  from v5_hbb_read_from_regions_header [OF pa v ver] obtain dram where
    "smem_dram_parse_switch 8 INFO_V5 kzalloc_smem_dram blob_v5_hbb = Some (Inr dram)"
    and "hbb dram = ucast (le32 blob_v5_hbb (hbb_v5_off 8))"
    by blast
  with val pa ver show ?thesis by simp
qed

theorem v5_hbb_region_record_counterexample:
  "smem_dram_infer_struct_version 8 (length blob_v5_zero) = INFO_V5
   \<and> smem_dram_infer_struct_version 8 (length blob_v5_hbb) = INFO_V5
   \<and> ddr_region_bytes 8 blob_v5_hbb 0 = ddr_region_bytes 8 blob_v5_zero 0
   \<and> drop (ddr_region_at 8 0) blob_v5_hbb = drop (ddr_region_at 8 0) blob_v5_zero
   \<and> smem_dram_parse_switch 8 INFO_V5 kzalloc_smem_dram blob_v5_zero
       = Some (Inr \<lparr>frequencies = replicate 14 0, num_frequencies = 0, hbb = 0\<rparr>)
   \<and> smem_dram_parse_switch 8 INFO_V5 kzalloc_smem_dram blob_v5_hbb
       = Some (Inr \<lparr>frequencies = replicate 14 0, num_frequencies = 0, hbb = 7\<rparr>)"
  by code_simp

text \<open>
  C10. For every buffer of revision \<open>INFO_V5\<close> or \<open>INFO_V5_WITH_6_REGIONS\<close>, the highest
  bank address bit in the buffer is a 32-bit member, and the result keeps its low eight
  bits: the stored byte, and what \<open>qcom_smem_dram_get_hbb\<close> returns for the result, is the
  member modulo 256.
\<close>

theorem v5_hbb_low_eight_bits:
  assumes "pa = 4 \<or> pa = 8"
    and "ver = INFO_V5 \<or> ver = INFO_V5_WITH_6_REGIONS"
    and "smem_dram_infer_struct_version pa (length data) = ver"
  shows "\<exists>dram. smem_dram_parse_switch pa ver kzalloc_smem_dram data = Some (Inr dram)
     \<and> unat (hbb dram) = unat (le32 data (hbb_v5_off pa)) mod 256
     \<and> qcom_smem_dram_get_hbb (Some dram) = uint (le32 data (hbb_v5_off pa)) mod 256"
proof -
  from decode_v5 [OF assms] obtain dram where
    run: "smem_dram_parse_switch pa ver kzalloc_smem_dram data = Some (Inr dram)"
    and h: "hbb dram = ucast (le32 data (hbb_v5_off pa))"
    by blast
  have n: "unat (hbb dram) = unat (le32 data (hbb_v5_off pa)) mod 256"
    unfolding h by (rule unat_hbb_mod)
  have "uint (hbb dram) = uint (le32 data (hbb_v5_off pa)) mod 256"
    unfolding h by (simp add: unsigned_ucast_eq take_bit_eq_mod)
  then have "qcom_smem_dram_get_hbb (Some dram) = uint (le32 data (hbb_v5_off pa)) mod 256"
    by (simp add: qcom_smem_dram_get_hbb_def)
  with run n show ?thesis by blast
qed

theorem v5_hbb_low_eight_bits_witness:
  "((8::nat) = 4 \<or> (8::nat) = 8)
   \<and> (INFO_V5_WITH_6_REGIONS = INFO_V5 \<or> INFO_V5_WITH_6_REGIONS = INFO_V5_WITH_6_REGIONS)
   \<and> smem_dram_infer_struct_version 8 (length blob_v5_wide) = INFO_V5_WITH_6_REGIONS
   \<and> le32 blob_v5_wide (hbb_v5_off 8) = 263
   \<and> (\<exists>dram. smem_dram_parse_switch 8 INFO_V5_WITH_6_REGIONS kzalloc_smem_dram blob_v5_wide
                = Some (Inr dram)
         \<and> unat (hbb dram) = 7
         \<and> qcom_smem_dram_get_hbb (Some dram) = 7)"
proof -
  have pa: "(8::nat) = 4 \<or> (8::nat) = 8" by simp
  have v: "INFO_V5_WITH_6_REGIONS = INFO_V5 \<or> INFO_V5_WITH_6_REGIONS = INFO_V5_WITH_6_REGIONS"
    by simp
  have ver: "smem_dram_infer_struct_version 8 (length blob_v5_wide) = INFO_V5_WITH_6_REGIONS"
    by (simp add: infer_8 blob_v5_wide_def)
  have val: "le32 blob_v5_wide (hbb_v5_off 8) = 263"
    by code_simp
  from v5_hbb_low_eight_bits [OF pa v ver] obtain dram where
    "smem_dram_parse_switch 8 INFO_V5_WITH_6_REGIONS kzalloc_smem_dram blob_v5_wide
       = Some (Inr dram)"
    and "unat (hbb dram) = unat (le32 blob_v5_wide (hbb_v5_off 8)) mod 256"
    and "qcom_smem_dram_get_hbb (Some dram) = uint (le32 blob_v5_wide (hbb_v5_off 8)) mod 256"
    by blast
  with val pa ver show ?thesis by simp
qed

text \<open>
  C7. For every buffer of revision \<open>INFO_V4\<close>, the highest bank address bit of the result
  is the byte \<open>highest_bank_addr_bit[0][0]\<close>. The bytes of the array at the other channel
  and rank indices are ignored: whatever is written to one of them, the result has the
  same highest bank address bit and the same frequency list.
\<close>

theorem v4_hbb_channel0_rank0:
  assumes "pa = 4 \<or> pa = 8"
    and "smem_dram_infer_struct_version pa (length data) = INFO_V4"
    and "chan < MAX_CHAN_NUM" and "rank < MAX_RANK_NUM" and "(chan, rank) \<noteq> (0, 0)"
  shows "\<exists>dram dram'.
       smem_dram_parse_switch pa INFO_V4 kzalloc_smem_dram data = Some (Inr dram)
     \<and> hbb dram = data ! hbb_v4_at pa 0 0
     \<and> smem_dram_parse_switch pa INFO_V4 kzalloc_smem_dram (data[hbb_v4_at pa chan rank := v])
         = Some (Inr dram')
     \<and> hbb dram' = data ! hbb_v4_at pa 0 0
     \<and> smem_dram_frequencies_show dram' = smem_dram_frequencies_show dram"
proof -
  let ?tbl = "ddr_freq_off pa ddr_details_v4 ddr_freq_plan_v3"
  let ?k = "hbb_v4_at pa chan rank"
  from decode_v4 [OF assms(1,2)] obtain dram where
    run: "smem_dram_parse_switch pa INFO_V4 kzalloc_smem_dram data = Some (Inr dram)"
    and lst: "smem_dram_frequencies_show dram = table_hz pa data ?tbl [0..<13]"
    and h: "hbb dram = data ! hbb_v4_at pa 0 0"
    by blast
  have ver': "smem_dram_infer_struct_version pa (length (data[?k := v])) = INFO_V4"
    using assms(2) by simp
  from decode_v4 [OF assms(1) ver'] obtain dram' where
    run': "smem_dram_parse_switch pa INFO_V4 kzalloc_smem_dram (data[?k := v]) = Some (Inr dram')"
    and lst': "smem_dram_frequencies_show dram' = table_hz pa (data[?k := v]) ?tbl [0..<13]"
    and h': "hbb dram' = data[?k := v] ! hbb_v4_at pa 0 0"
    by blast
  have k: "?k = hbb_v4_at pa 0 0 + (chan * 2 + rank)"
    by (simp add: hbb_v4_at_def MAX_RANK_NUM_def)
  from assms(5) have "chan * 2 + rank \<noteq> 0" by auto
  with k have "?k \<noteq> hbb_v4_at pa 0 0" by simp
  then have sameh: "data[?k := v] ! hbb_v4_at pa 0 0 = data ! hbb_v4_at pa 0 0" by simp
  from assms(1) k have "?k < ?tbl \<or> ?tbl + 13 * 8 \<le> ?k"
    by (auto simp: layout_8 layout_4)
  from table_list_update [OF this]
  have same: "table_hz pa (data[?k := v]) ?tbl [0..<13] = table_hz pa data ?tbl [0..<13]"
    by (simp only: table_hz_def)
  have "hbb dram' = data ! hbb_v4_at pa 0 0" by (simp only: h' sameh)
  moreover have "smem_dram_frequencies_show dram' = smem_dram_frequencies_show dram"
    by (simp only: lst' same lst)
  ultimately show ?thesis using run run' h by blast
qed

theorem v4_hbb_channel0_rank0_witness:
  "((8::nat) = 4 \<or> (8::nat) = 8)
   \<and> smem_dram_infer_struct_version 8 (length blob_v4_hbb) = INFO_V4
   \<and> (1::nat) < MAX_CHAN_NUM \<and> (0::nat) < MAX_RANK_NUM \<and> (1::nat, 0::nat) \<noteq> (0, 0)
   \<and> blob_v4_hbb[hbb_v4_at 8 1 0 := 7] ! hbb_v4_at 8 0 0 = 3
   \<and> blob_v4_hbb[hbb_v4_at 8 1 0 := 7] ! hbb_v4_at 8 1 0 = 7
   \<and> (\<exists>dram'. smem_dram_parse_switch 8 INFO_V4 kzalloc_smem_dram
                   (blob_v4_hbb[hbb_v4_at 8 1 0 := 7]) = Some (Inr dram')
         \<and> hbb dram' = 3)"
proof -
  have pa: "(8::nat) = 4 \<or> (8::nat) = 8" by simp
  have ver: "smem_dram_infer_struct_version 8 (length blob_v4_hbb) = INFO_V4"
    by (simp add: infer_8 blob_v4_hbb_def)
  have c: "(1::nat) < MAX_CHAN_NUM" and r: "(0::nat) < MAX_RANK_NUM"
    and cr: "(1::nat, 0::nat) \<noteq> (0, 0)"
    by (simp_all add: MAX_CHAN_NUM_def MAX_RANK_NUM_def)
  have b0: "blob_v4_hbb ! hbb_v4_at 8 0 0 = 3"
    by code_simp
  have b0': "blob_v4_hbb[hbb_v4_at 8 1 0 := 7] ! hbb_v4_at 8 0 0 = 3"
    by code_simp
  have b1: "blob_v4_hbb[hbb_v4_at 8 1 0 := 7] ! hbb_v4_at 8 1 0 = 7"
    by code_simp
  from v4_hbb_channel0_rank0 [OF pa ver c r cr, of 7] obtain dram' where
    "smem_dram_parse_switch 8 INFO_V4 kzalloc_smem_dram (blob_v4_hbb[hbb_v4_at 8 1 0 := 7])
       = Some (Inr dram')"
    and "hbb dram' = blob_v4_hbb ! hbb_v4_at 8 0 0"
    by blast
  then have "\<exists>dram'. smem_dram_parse_switch 8 INFO_V4 kzalloc_smem_dram
                   (blob_v4_hbb[hbb_v4_at 8 1 0 := 7]) = Some (Inr dram')
         \<and> hbb dram' = 3"
    unfolding b0 by blast
  with b0' b1 pa ver c r cr show ?thesis by blast
qed

text \<open>
  C2 (as amended). For every buffer of revision \<open>INFO_V3\<close>, \<open>INFO_V4\<close>, \<open>INFO_V5\<close> or
  \<open>INFO_V5_WITH_6_REGIONS\<close>, the frequency list of the result is, in table order, the
  list of the values of the table entries that are non-zero and enabled, one value for
  each such entry: a value occurs in the list as many times as there are such entries
  carrying it. Equal frequencies are not merged. (Nothing is said of revision
  \<open>INFO_V3_WITH_14_FREQS\<close>, whose parser leaves the declared table.)
\<close>

theorem frequencies_one_per_valid_entry:
  assumes "pa = 4 \<or> pa = 8"
    and "smem_dram_infer_struct_version pa (length data) = ver"
    and "INFO_UNKNOWN < ver"
    and "ver \<noteq> INFO_V3_WITH_14_FREQS"
  shows "\<exists>dram. smem_dram_parse_switch pa ver kzalloc_smem_dram data = Some (Inr dram)
     \<and> smem_dram_frequencies_show dram
         = map freq_entry_hz (filter freq_entry_valid (freq_table pa ver data))
     \<and> (\<forall>v. count_list (smem_dram_frequencies_show dram) v
              = length (filter (\<lambda>e. freq_entry_valid e \<and> freq_entry_hz e = v)
                          (freq_table pa ver data)))"
proof -
  from decode_classified [OF assms] obtain dram where
    run: "smem_dram_parse_switch pa ver kzalloc_smem_dram data = Some (Inr dram)"
    and lst: "smem_dram_frequencies_show dram =
                map freq_entry_hz (filter freq_entry_valid (freq_table pa ver data))"
    by blast
  have "count_list (smem_dram_frequencies_show dram) v
              = length (filter (\<lambda>e. freq_entry_valid e \<and> freq_entry_hz e = v)
                          (freq_table pa ver data))" for v
    unfolding lst by (rule count_list_map_filter)
  with run lst show ?thesis by blast
qed

theorem frequencies_one_per_valid_entry_witness:
  "((8::nat) = 4 \<or> (8::nat) = 8)
   \<and> smem_dram_infer_struct_version 8 (length blob_v3_twice) = INFO_V3
   \<and> INFO_UNKNOWN < INFO_V3
   \<and> INFO_V3 \<noteq> INFO_V3_WITH_14_FREQS
   \<and> (\<exists>dram. smem_dram_parse_switch 8 INFO_V3 kzalloc_smem_dram blob_v3_twice = Some (Inr dram)
         \<and> smem_dram_frequencies_show dram = [1600000000, 1600000000]
         \<and> count_list (smem_dram_frequencies_show dram) 1600000000 = 2)"
proof -
  have pa: "(8::nat) = 4 \<or> (8::nat) = 8" by simp
  have ver: "smem_dram_infer_struct_version 8 (length blob_v3_twice) = INFO_V3"
    by (simp add: infer_8 blob_v3_twice_def)
  have known: "INFO_UNKNOWN < INFO_V3" and inside: "INFO_V3 \<noteq> INFO_V3_WITH_14_FREQS"
    by (simp_all add: version_defs)
  have l: "map freq_entry_hz (filter freq_entry_valid (freq_table 8 INFO_V3 blob_v3_twice))
             = [1600000000, 1600000000]"
    by code_simp
  have c: "length (filter (\<lambda>e. freq_entry_valid e \<and> freq_entry_hz e = 1600000000)
                     (freq_table 8 INFO_V3 blob_v3_twice)) = 2"
    by code_simp
  from frequencies_one_per_valid_entry [OF pa ver known inside] obtain dram where
    run: "smem_dram_parse_switch 8 INFO_V3 kzalloc_smem_dram blob_v3_twice = Some (Inr dram)"
    and lst: "smem_dram_frequencies_show dram
           = map freq_entry_hz (filter freq_entry_valid (freq_table 8 INFO_V3 blob_v3_twice))"
    and cnt: "\<forall>v. count_list (smem_dram_frequencies_show dram) v
              = length (filter (\<lambda>e. freq_entry_valid e \<and> freq_entry_hz e = v)
                          (freq_table 8 INFO_V3 blob_v3_twice))"
    by blast
  from lst have "smem_dram_frequencies_show dram = [1600000000, 1600000000]"
    unfolding l .
  moreover from cnt [rule_format, of 1600000000]
  have "count_list (smem_dram_frequencies_show dram) 1600000000 = 2"
    unfolding c .
  ultimately have "\<exists>dram. smem_dram_parse_switch 8 INFO_V3 kzalloc_smem_dram blob_v3_twice
                       = Some (Inr dram)
         \<and> smem_dram_frequencies_show dram = [1600000000, 1600000000]
         \<and> count_list (smem_dram_frequencies_show dram) 1600000000 = 2"
    using run by blast
  with pa ver known inside show ?thesis by blast
qed

theorem duplicate_frequency_counterexample:
  "smem_dram_infer_struct_version 8 (length blob_v3_twice) = INFO_V3
   \<and> ddr_freq 8 blob_v3_twice (ddr_freq_off 8 ddr_details_v3 ddr_freq_plan_v3) 0
       = \<lparr>freq_khz = 1600000, enabled = 1\<rparr>
   \<and> ddr_freq 8 blob_v3_twice (ddr_freq_off 8 ddr_details_v3 ddr_freq_plan_v3) 1
       = \<lparr>freq_khz = 1600000, enabled = 1\<rparr>
   \<and> smem_dram_parse_switch 8 INFO_V3 kzalloc_smem_dram blob_v3_twice
       = Some (Inr \<lparr>frequencies = 1600000000 # 1600000000 # replicate 12 0,
                     num_frequencies = 2, hbb = 0\<rparr>)
   \<and> smem_dram_frequencies_show
        \<lparr>frequencies = 1600000000 # 1600000000 # replicate 12 0, num_frequencies = 2, hbb = 0\<rparr>
       = [1600000000, 1600000000]
   \<and> \<not> distinct (smem_dram_frequencies_show
        \<lparr>frequencies = 1600000000 # 1600000000 # replicate 12 0, num_frequencies = 2, hbb = 0\<rparr>)"
  by code_simp



text \<open>
  C8. The claim covers the buffers of revision \<open>INFO_V3_WITH_14_FREQS\<close>, and on them the
  driver has no defined result: \<open>smem_dram_parse_v3_data\<close> walks fourteen entries of
  the member \<open>ddr_freq\<close> of \<open>struct ddr_freq_plan_v3\<close>, which declares thirteen. The
  theorem evaluates the driver on such a buffer: the first thirteen entries are parsed,
  the fourteenth index is outside the array, and neither the parser nor
  \<open>smem_dram_parse\<close> has a result.
\<close>

theorem v3_extra_entry_outside_array:
  "smem_dram_infer_struct_version 8 (length blob_v3_extra) = INFO_V3_WITH_14_FREQS
   \<and> ddr_freq_len ddr_freq_plan_v3 = 13
   \<and> parse_freq_entries 8 blob_v3_extra (ddr_freq_off 8 ddr_details_v3 ddr_freq_plan_v3)
        (ddr_freq_len ddr_freq_plan_v3) [0..<13] kzalloc_smem_dram
       = Some \<lparr>frequencies = 1600000000 # replicate 13 0, num_frequencies = 1, hbb = 0\<rparr>
   \<and> smem_dram_parse_v3_data 8 kzalloc_smem_dram blob_v3_extra True = None
   \<and> smem_dram_parse_switch 8 INFO_V3_WITH_14_FREQS kzalloc_smem_dram blob_v3_extra = None
   \<and> smem_dram_parse 8 False (Some blob_v3_extra) True () None = None"
  by code_simp



end
